theory Spec2Isabelle
  imports Main "HOL-Library.AList"
begin

section \<open>Python strings\<close>

text \<open>
  A Python \<open>str\<close> is modelled as a \<open>string\<close>; one \<open>char\<close> stands for one code point
  in the range 0..255. On this range the regular expression class \<open>\d\<close> is the ten
  ASCII digits. Bytes are natural numbers below 256.
\<close>

abbreviation NL :: char where "NL \<equiv> CHR 0x0A"
abbreviation CR :: char where "CR \<equiv> CHR 0x0D"
abbreviation TAB :: char where "TAB \<equiv> CHR 0x09"
abbreviation BSP :: char where "BSP \<equiv> CHR 0x08"
abbreviation FF :: char where "FF \<equiv> CHR 0x0C"
abbreviation DQ :: char where "DQ \<equiv> CHR 0x22"
abbreviation BSL :: char where "BSL \<equiv> CHR 0x5C"

type_synonym byte = nat

text \<open>\<open>s.strip(chars)\<close>: drop the leading and the trailing characters that occur in \<open>chars\<close>.\<close>

definition strip :: "string \<Rightarrow> string \<Rightarrow> string" where
  "strip chars s =
     rev (dropWhile (\<lambda>c. c \<in> set chars) (rev (dropWhile (\<lambda>c. c \<in> set chars) s)))"

text \<open>\<open>s.endswith(suf)\<close>.\<close>

definition endswith :: "string \<Rightarrow> string \<Rightarrow> bool" where
  "endswith s suf = (length suf \<le> length s \<and> drop (length s - length suf) s = suf)"

text \<open>
  \<open>s.split(sep)\<close> for a separator of one character: the pieces between the separators,
  one more than there are separators. The accumulator holds the current piece reversed.
\<close>

fun split_acc :: "char \<Rightarrow> string \<Rightarrow> string \<Rightarrow> string list" where
  "split_acc sep acc [] = [rev acc]"
| "split_acc sep acc (c # cs) =
     (if c = sep then rev acc # split_acc sep [] cs else split_acc sep (c # acc) cs)"

definition split :: "char \<Rightarrow> string \<Rightarrow> string list" where
  "split sep s = split_acc sep [] s"

text \<open>\<open>sep.join(xs)\<close> for a separator of one character.\<close>

fun join :: "char \<Rightarrow> string list \<Rightarrow> string" where
  "join sep [] = []"
| "join sep [x] = x"
| "join sep (x # y # ys) = x @ sep # join sep (y # ys)"

section \<open>The two regular expressions of the extractor\<close>

text \<open>
  \<open>transaction_regex = r'^\n?\d{4}-\d{2}-\d{2} [\*|\!] '\<close>, used with \<open>re.match\<close> and no
  flag: the match is tried at the start of the string only. Inside a character class the
  bar is an ordinary character, so the class \<open>[\*|\!]\<close> holds three characters.
\<close>

definition is_digit :: "char \<Rightarrow> bool" where
  "is_digit c = (c \<in> set ''0123456789'')"

definition marker_class :: "char list" where
  "marker_class = [CHR ''*'', CHR ''|'', CHR ''!'']"

text \<open>The part of the pattern after the optional newline: thirteen characters.\<close>

fun transaction_body :: "string \<Rightarrow> bool" where
  "transaction_body (y1 # y2 # y3 # y4 # h1 # m1 # m2 # h2 # d1 # d2 # s1 # mk # s2 # rest) =
     (is_digit y1 \<and> is_digit y2 \<and> is_digit y3 \<and> is_digit y4 \<and> h1 = CHR ''-'' \<and>
      is_digit m1 \<and> is_digit m2 \<and> h2 = CHR ''-'' \<and>
      is_digit d1 \<and> is_digit d2 \<and> s1 = CHR '' '' \<and>
      mk \<in> set marker_class \<and> s2 = CHR '' '')"
| "transaction_body _ = False"

text \<open>
  \<open>re.match(transaction_regex, entry)\<close> as a truth value. The optional newline is greedy:
  the engine first consumes a leading newline and, if the rest fails, retries without it.
\<close>

definition match_transaction :: "string \<Rightarrow> bool" where
  "match_transaction entry =
     (case entry of
        c # cs \<Rightarrow> (c = NL \<and> transaction_body cs) \<or> transaction_body entry
      | [] \<Rightarrow> transaction_body entry)"

text \<open>
  \<open>empty_newline = f'^[{empty_escape_sequences}]*$'\<close>, used with \<open>re.MULTILINE\<close>. The
  constant \<open>empty_escape_sequences\<close> is imported from a module that is not part of the
  sources at hand, so it is a parameter, in two readings: \<open>cls\<close> lists the characters that
  the class \<open>[...]\<close> built from the constant matches, and \<open>strp\<close> lists the characters of
  the constant itself, which is what \<open>strip\<close> removes.

  Under \<open>MULTILINE\<close>, \<open>^\<close> holds at position 0 and after every newline, \<open>$\<close> holds at the
  end of the string and before every newline.
\<close>

definition at_bol :: "string \<Rightarrow> nat \<Rightarrow> bool" where
  "at_bol s p = (p = 0 \<or> (p \<le> length s \<and> s ! (p - 1) = NL))"

definition at_eol :: "string \<Rightarrow> nat \<Rightarrow> bool" where
  "at_eol s p = (p = length s \<or> (p < length s \<and> s ! p = NL))"

text \<open>
  One match attempt of \<open>empty_newline\<close> at position \<open>p\<close>, giving the end of the match. The
  star is greedy: it takes the longest run \<open>p..q\<close> of class characters and gives characters
  back one by one until \<open>$\<close> holds. With \<open>must_advance\<close> (set by the scanner after an empty
  match) an empty match at \<open>p\<close> is refused.
\<close>

definition match_empty_newline :: "char list \<Rightarrow> string \<Rightarrow> nat \<Rightarrow> bool \<Rightarrow> nat option" where
  "match_empty_newline cls s p must_advance =
     (if \<not> at_bol s p then None
      else let q = p + length (takeWhile (\<lambda>c. c \<in> set cls) (drop p s))
           in List.find (\<lambda>e. at_eol s e \<and> \<not> (must_advance \<and> e = p)) (rev [p ..< Suc q]))"

text \<open>
  The search for the leftmost match at or after \<open>p\<close>. Only the first attempt is made under
  \<open>must_advance\<close>.
\<close>

function search_empty_newline ::
  "char list \<Rightarrow> string \<Rightarrow> nat \<Rightarrow> bool \<Rightarrow> (nat \<times> nat) option" where
  "search_empty_newline cls s p must_advance =
     (if length s < p then None
      else case match_empty_newline cls s p must_advance of
             Some e \<Rightarrow> Some (p, e)
           | None \<Rightarrow> search_empty_newline cls s (Suc p) False)"
  by pat_completeness auto
termination
  by (relation "measure (\<lambda>(cls, s, p, m). Suc (length s) - p)") auto

lemma match_empty_newline_bounds:
  assumes "match_empty_newline cls s p m = Some e"
  shows "p \<le> e" and "e \<le> length s" and "m \<Longrightarrow> p < e"
proof -
  let ?q = "p + length (takeWhile (\<lambda>c. c \<in> set cls) (drop p s))"
  from assms have f: "List.find (\<lambda>e. at_eol s e \<and> \<not> (m \<and> e = p)) (rev [p ..< Suc ?q]) = Some e"
    unfolding match_empty_newline_def Let_def by (cases "at_bol s p") simp_all
  then have ok: "at_eol s e \<and> \<not> (m \<and> e = p)" and mem: "e \<in> set (rev [p ..< Suc ?q])"
    by (metis (mono_tags, lifting) find_Some_iff, metis find_Some_iff nth_mem)
  from mem have pe: "p \<le> e" by (simp del: upt_Suc)
  from pe show "p \<le> e" .
  from ok show "e \<le> length s" by (auto simp: at_eol_def)
  from pe ok show "m \<Longrightarrow> p < e" by (cases "e = p") auto
qed

lemma search_empty_newline_bounds:
  "search_empty_newline cls s p m = Some (i, e) \<Longrightarrow>
     p \<le> i \<and> i \<le> e \<and> e \<le> length s \<and> (m \<and> i = p \<longrightarrow> p < e)"
proof (induction cls s p m rule: search_empty_newline.induct)
  case (1 cls s p m)
  show ?case
  proof (cases "match_empty_newline cls s p m")
    case None
    with "1.prems" have le: "\<not> length s < p"
      and rec: "search_empty_newline cls s (Suc p) False = Some (i, e)"
      by (auto split: if_splits)
    from "1.IH"[OF le None rec] show ?thesis by auto
  next
    case (Some e')
    with "1.prems" have "i = p" "e = e'" by (auto split: if_splits)
    with match_empty_newline_bounds[OF Some] show ?thesis by auto
  qed
qed

text \<open>
  \<open>re.split(empty_newline, s, flags=re.MULTILINE)\<close> as the scanner runs it (Python 3.7 or
  later, where empty matches split too): search from \<open>start\<close>, emit the text between
  \<open>start\<close> and the match, continue at the end of the match, and require progress after an
  empty match. The text after the last match is the last piece.
\<close>

function re_split_from :: "char list \<Rightarrow> string \<Rightarrow> nat \<Rightarrow> bool \<Rightarrow> string list" where
  "re_split_from cls s start must_advance =
     (case search_empty_newline cls s start must_advance of
        None \<Rightarrow> [drop start s]
      | Some (p, e) \<Rightarrow> take (p - start) (drop start s) # re_split_from cls s e (e = p))"
  by pat_completeness auto
termination
proof (relation "measures [\<lambda>(cls, s, start, m). Suc (length s) - start,
                           \<lambda>(cls, s, start, m). if m then 0 else 1]", goal_cases)
  case 1
  show ?case by simp
next
  case (2 cls s start m x p e)
  from search_empty_newline_bounds[of cls s start m p e] 2
  have "start \<le> p" "p \<le> e" "e \<le> length s" "m \<and> p = start \<longrightarrow> start < e"
    by auto
  then show ?case by (cases m) auto
qed

definition re_split :: "char list \<Rightarrow> string \<Rightarrow> string list" where
  "re_split cls s = re_split_from cls s 0 False"

section \<open>Entries of one ledger text\<close>

text \<open>
  The list comprehension of \<open>extract_beancount_entries\<close> for the content of one file:
  split, keep the pieces that \<open>re.match\<close> accepts, strip each.
\<close>

definition entries_of_content :: "char list \<Rightarrow> string \<Rightarrow> string \<Rightarrow> string list" where
  "entries_of_content cls strp ledger_content =
     map (strip strp) (filter match_transaction (re_split cls ledger_content))"

section \<open>JSON as the emitter writes it and the reader parses it\<close>

text \<open>
  \<open>json.dumps(obj, ensure_ascii=False)\<close>. A string is written between double quotes;
  the backslash, the double quote and the control characters below 0x20 are escaped
  (short escapes for backspace, form feed, newline, carriage return and tab,
  \<open>\u00XX\<close> for the others) and every other character is written as it is. A dict is
  written with the separators \<open>', '\<close> and \<open>': '\<close>.
\<close>

datatype json = JString string | JObject "(string \<times> json) list"

definition hex_digit :: "nat \<Rightarrow> char" where
  "hex_digit n = ''0123456789abcdef'' ! (n mod 16)"

definition escape_char :: "char \<Rightarrow> string" where
  "escape_char c =
     (if c = BSL then [BSL, BSL]
      else if c = DQ then [BSL, DQ]
      else if c = BSP then [BSL, CHR ''b'']
      else if c = FF then [BSL, CHR ''f'']
      else if c = NL then [BSL, CHR ''n'']
      else if c = CR then [BSL, CHR ''r'']
      else if c = TAB then [BSL, CHR ''t'']
      else if (of_char c :: nat) < 32
        then [BSL, CHR ''u'', CHR ''0'', CHR ''0'',
              hex_digit (of_char c div 16), hex_digit (of_char c mod 16)]
      else [c])"

definition encode_basestring :: "string \<Rightarrow> string" where
  "encode_basestring s = DQ # concat (map escape_char s) @ [DQ]"

fun join_str :: "string \<Rightarrow> string list \<Rightarrow> string" where
  "join_str sep [] = []"
| "join_str sep [x] = x"
| "join_str sep (x # y # ys) = x @ sep @ join_str sep (y # ys)"

fun json_dumps :: "json \<Rightarrow> string"
  and dumps_members :: "(string \<times> json) list \<Rightarrow> string list" where
  "json_dumps (JString s) = encode_basestring s"
| "json_dumps (JObject kvs) = ''{'' @ join_str '', '' (dumps_members kvs) @ ''}''"
| "dumps_members [] = []"
| "dumps_members ((k, v) # kvs) =
     (encode_basestring k @ '': '' @ json_dumps v) # dumps_members kvs"

text \<open>
  Errors are values. \<open>SystemExit n\<close> is what \<open>exit(n)\<close> raises. \<open>Unmodelled\<close> marks an
  input on which Python returns a value that this model has no representation for: a
  character beyond code point 255, or a JSON value that is neither a string nor an
  object of strings.
\<close>

datatype error =
    SystemExit nat
  | FileNotFoundError string
  | PermissionError string
  | UnicodeDecodeError
  | BadGzipFile
  | JSONDecodeError
  | TypeError
  | Unmodelled

text \<open>
  \<open>json.loads\<close>, for strings and for objects whose values are strings. Whitespace is
  space, tab, newline and carriage return. Inside a string a control character is an
  error (the decoder is strict), and the escapes are the eight short ones and
  \<open>\uXXXX\<close>.
\<close>

definition json_ws :: "char \<Rightarrow> bool" where
  "json_ws c = (c \<in> set [CHR '' '', TAB, NL, CR])"

definition skip_ws :: "string \<Rightarrow> string" where
  "skip_ws s = dropWhile json_ws s"

definition hex_value :: "char \<Rightarrow> nat option" where
  "hex_value c =
     (let n = (of_char c :: nat) in
      if 48 \<le> n \<and> n \<le> 57 then Some (n - 48)
      else if 97 \<le> n \<and> n \<le> 102 then Some (n - 87)
      else if 65 \<le> n \<and> n \<le> 70 then Some (n - 55)
      else None)"

definition hex4 :: "char \<Rightarrow> char \<Rightarrow> char \<Rightarrow> char \<Rightarrow> nat option" where
  "hex4 a b c d =
     (case (hex_value a, hex_value b, hex_value c, hex_value d) of
        (Some x, Some y, Some z, Some w) \<Rightarrow> Some (((x * 16 + y) * 16 + z) * 16 + w)
      | _ \<Rightarrow> None)"

definition unescape :: "char \<Rightarrow> char option" where
  "unescape e =
     (if e = DQ then Some DQ
      else if e = BSL then Some BSL
      else if e = CHR ''/'' then Some (CHR ''/'')
      else if e = CHR ''b'' then Some BSP
      else if e = CHR ''f'' then Some FF
      else if e = CHR ''n'' then Some NL
      else if e = CHR ''r'' then Some CR
      else if e = CHR ''t'' then Some TAB
      else None)"

text \<open>
  The scan of a string after its opening quote: the decoded string and the text after
  the closing quote. The accumulator holds the decoded characters reversed.
\<close>

fun scanstring :: "string \<Rightarrow> string \<Rightarrow> error + (string \<times> string)" where
  "scanstring acc [] = Inl JSONDecodeError"
| "scanstring acc (c # cs) =
     (if c = DQ then Inr (rev acc, cs)
      else if c = BSL then
        (case cs of
           [] \<Rightarrow> Inl JSONDecodeError
         | e # es \<Rightarrow>
             if e = CHR ''u'' then
               (case es of
                  a # b # c' # d # r \<Rightarrow>
                    (case hex4 a b c' d of
                       None \<Rightarrow> Inl JSONDecodeError
                     | Some n \<Rightarrow>
                         if n < 256 then scanstring (char_of n # acc) r else Inl Unmodelled)
                | _ \<Rightarrow> Inl JSONDecodeError)
             else
               (case unescape e of
                  None \<Rightarrow> Inl JSONDecodeError
                | Some ch \<Rightarrow> scanstring (ch # acc) es))
      else if (of_char c :: nat) < 32 then Inl JSONDecodeError
      else scanstring (c # acc) cs)"

lemma scanstring_shorter:
  "scanstring acc s = Inr (v, r) \<Longrightarrow> length r < length s"
proof (induction acc s rule: scanstring.induct)
  case (1 acc)
  then show ?case by simp
next
  case (2 acc c cs)
  then show ?case
    by (simp split: if_splits list.splits option.splits) force+
qed

text \<open>
  A value at the head of the text. A string is scanned; any other well-formed start of a
  JSON value (an object, an array, a number or a literal) is outside the model.
\<close>

definition scan_value :: "string \<Rightarrow> error + (json \<times> string)" where
  "scan_value s =
     (case s of
        [] \<Rightarrow> Inl JSONDecodeError
      | c # cs \<Rightarrow>
          if c = DQ then
            (case scanstring [] cs of
               Inl e \<Rightarrow> Inl e
             | Inr (v, r) \<Rightarrow> Inr (JString v, r))
          else if c \<in> set ''{[-0123456789tfnNI'' then Inl Unmodelled
          else Inl JSONDecodeError)"

text \<open>
  The members of an object, from the opening quote of a key on. A key that occurs again
  replaces the earlier value, as a Python dict does.
\<close>

function scan_members ::
  "(string \<times> json) list \<Rightarrow> string \<Rightarrow> error + ((string \<times> json) list \<times> string)" where
  "scan_members pairs s =
     (case s of
        [] \<Rightarrow> Inl JSONDecodeError
      | q # s1 \<Rightarrow>
          if q \<noteq> DQ then Inl JSONDecodeError
          else
            (case scanstring [] s1 of
               Inl e \<Rightarrow> Inl e
             | Inr (key, s2) \<Rightarrow>
                 (case skip_ws s2 of
                    [] \<Rightarrow> Inl JSONDecodeError
                  | colon # s3 \<Rightarrow>
                      if colon \<noteq> CHR '':'' then Inl JSONDecodeError
                      else
                        (case scan_value (skip_ws s3) of
                           Inl e \<Rightarrow> Inl e
                         | Inr (v, s4) \<Rightarrow>
                             (let pairs' = AList.update key v pairs in
                              case skip_ws s4 of
                                [] \<Rightarrow> Inl JSONDecodeError
                              | d # s5 \<Rightarrow>
                                  if d = CHR ''}'' then Inr (pairs', s5)
                                  else if d = CHR '','' then scan_members pairs' (skip_ws s5)
                                  else Inl JSONDecodeError)))))"
  by pat_completeness auto

lemma skip_ws_length: "length (skip_ws s) \<le> length s"
  by (simp add: skip_ws_def length_dropWhile_le)

lemma scan_value_shorter: "scan_value s = Inr (v, r) \<Longrightarrow> length r < length s"
  by (auto simp: scan_value_def split: list.splits if_splits sum.splits
           dest: scanstring_shorter)

termination scan_members
proof (relation "measure (\<lambda>(pairs, s). length s)", goal_cases)
  case 1
  show ?case by simp
next
  case (2 pairs s q s1 x key s2 colon s3 y v s4 pairs' d s5)
  have a: "length s2 < length s1"
    using 2 scanstring_shorter[of "[]" s1 key s2] by simp
  have b: "length s3 < length s2"
    using 2 skip_ws_length[of s2] by simp
  have c: "length s4 < length s3"
    using 2 scan_value_shorter[of "skip_ws s3" v s4] skip_ws_length[of s3] by simp
  have d: "length s5 < length s4"
    using 2 skip_ws_length[of s4] by simp
  have e: "length (skip_ws s5) \<le> length s5"
    by (rule skip_ws_length)
  from a b c d e 2 show ?case by simp
qed

text \<open>
  \<open>json.loads(s)\<close>: leading whitespace, one value, trailing whitespace, and nothing
  else.
\<close>

definition scan_top :: "string \<Rightarrow> error + (json \<times> string)" where
  "scan_top s =
     (case s of
        [] \<Rightarrow> Inl JSONDecodeError
      | c # cs \<Rightarrow>
          if c = CHR ''{'' then
            (case skip_ws cs of
               [] \<Rightarrow> Inl JSONDecodeError
             | d # ds \<Rightarrow>
                 if d = CHR ''}'' then Inr (JObject [], ds)
                 else
                   (case scan_members [] (d # ds) of
                      Inl e \<Rightarrow> Inl e
                    | Inr (pairs, r) \<Rightarrow> Inr (JObject pairs, r)))
          else if c = DQ then scan_value s
          else if c \<in> set ''[-0123456789tfnNI'' then Inl Unmodelled
          else Inl JSONDecodeError)"

definition json_loads :: "string \<Rightarrow> error + json" where
  "json_loads s =
     (case scan_top (skip_ws s) of
        Inl e \<Rightarrow> Inl e
      | Inr (v, r) \<Rightarrow> if skip_ws r = [] then Inr v else Inl JSONDecodeError)"

section \<open>Text files, encodings and the environment\<close>

text \<open>
  A file holds bytes. Text is written and read through an encoding; the two encodings
  modelled are UTF-8 and Latin-1, both total on the code points 0..255. When no encoding
  is given, Python takes the one of the locale, which is part of the environment.
\<close>

datatype encoding = UTF8 | Latin1

definition encode_utf8_char :: "char \<Rightarrow> byte list" where
  "encode_utf8_char c =
     (let n = (of_char c :: nat) in
      if n < 128 then [n] else [192 + n div 64, 128 + n mod 64])"

definition encode_text :: "encoding \<Rightarrow> string \<Rightarrow> byte list" where
  "encode_text enc s =
     (case enc of
        UTF8 \<Rightarrow> concat (map encode_utf8_char s)
      | Latin1 \<Rightarrow> map of_char s)"

text \<open>
  Strict UTF-8 decoding. The lead bytes 0xC2 and 0xC3 start the two-byte forms of the
  code points 128..255. A lead byte from 0xC4 to 0xF4 starts a code point beyond 255,
  which the model does not represent; every other byte above 0x7F is malformed.
\<close>

fun decode_utf8 :: "byte list \<Rightarrow> error + string" where
  "decode_utf8 [] = Inr []"
| "decode_utf8 (b # bs) =
     (if b < 128 then
        (case decode_utf8 bs of Inl e \<Rightarrow> Inl e | Inr s \<Rightarrow> Inr (char_of b # s))
      else if b = 194 \<or> b = 195 then
        (case bs of
           [] \<Rightarrow> Inl UnicodeDecodeError
         | b2 # bs' \<Rightarrow>
             if 128 \<le> b2 \<and> b2 < 192 then
               (case decode_utf8 bs' of
                  Inl e \<Rightarrow> Inl e
                | Inr s \<Rightarrow> Inr (char_of ((b - 192) * 64 + (b2 - 128)) # s))
             else Inl UnicodeDecodeError)
      else if 196 \<le> b \<and> b \<le> 244 then Inl Unmodelled
      else Inl UnicodeDecodeError)"

definition decode_text :: "encoding \<Rightarrow> byte list \<Rightarrow> error + string" where
  "decode_text enc bs =
     (case enc of
        UTF8 \<Rightarrow> decode_utf8 bs
      | Latin1 \<Rightarrow> Inr (map char_of bs))"

text \<open>
  Reading in text mode translates \<open>\r\n\<close> and a lone \<open>\r\<close> to \<open>\n\<close> (universal newlines).
  Writing translates \<open>\n\<close> to the line separator of the platform, which is taken to be
  \<open>\n\<close> itself, so writing translates nothing.
\<close>

fun universal_newlines :: "string \<Rightarrow> string" where
  "universal_newlines [] = []"
| "universal_newlines (c # cs) =
     (if c = CR then
        (case cs of
           [] \<Rightarrow> [NL]
         | d # ds \<Rightarrow> if d = NL then NL # universal_newlines ds else NL # universal_newlines cs)
      else c # universal_newlines cs)"

text \<open>
  Iterating over a text file gives its lines, each with its newline, the last one
  without if the text does not end in a newline.
\<close>

fun iter_lines :: "string \<Rightarrow> string \<Rightarrow> string list" where
  "iter_lines acc [] = (if acc = [] then [] else [rev acc])"
| "iter_lines acc (c # cs) =
     (if c = NL then rev (c # acc) # iter_lines [] cs else iter_lines (c # acc) cs)"

text \<open>
  What the program prints, as structured messages, and what it does to the file system,
  as a trace of events next to the files themselves.
\<close>

datatype message =
    Input_required
  | Wrote_jsonl nat string
  | Wrote_gzip nat string
  | Loaded_records nat string
  | Non_beancount_warning "string list"
  | Processing_files "string list"
  | Converted_entries nat

datatype event =
    Print message
  | Open_read string
  | Open_write string
  | Glob string

record world =
  files :: "string \<Rightarrow> byte list option"
  trace :: "event list"

text \<open>
  The environment of a run. \<open>get_absolute_path\<close> and \<open>empty_escape_sequences\<close> are
  imported from modules that are not part of the sources at hand, and \<open>glob.glob\<close> and
  \<open>gzip\<close> are library code, so all of them are parameters: \<open>absolute_path\<close> resolves a
  path, \<open>glob_paths\<close> lists the matches of a pattern, \<open>gz_compress\<close> and \<open>gz_decompress\<close>
  are the gzip codec, \<open>writable\<close> says which paths can be opened for writing,
  \<open>class_chars\<close> and \<open>strip_chars\<close> are the two readings of \<open>empty_escape_sequences\<close>.
\<close>

record env =
  locale_encoding :: encoding
  absolute_path :: "string \<Rightarrow> string"
  glob_paths :: "string \<Rightarrow> string list"
  writable :: "string \<Rightarrow> bool"
  gz_compress :: "byte list \<Rightarrow> byte list"
  gz_decompress :: "byte list \<Rightarrow> byte list option"
  class_chars :: "char list"
  strip_chars :: "char list"

definition print :: "message \<Rightarrow> world \<Rightarrow> world" where
  "print m w = w\<lparr>trace := trace w @ [Print m]\<rparr>"

text \<open>\<open>open(path, 'w', encoding=enc)\<close> followed by one \<open>write\<close> and the close.\<close>

definition write_file :: "env \<Rightarrow> world \<Rightarrow> string \<Rightarrow> byte list \<Rightarrow> (error + unit) \<times> world" where
  "write_file ev w path bytes =
     (let w' = w\<lparr>trace := trace w @ [Open_write path]\<rparr> in
      if writable ev path then (Inr (), w'\<lparr>files := (files w')(path \<mapsto> bytes)\<rparr>)
      else (Inl (PermissionError path), w'))"

text \<open>\<open>open(path, 'r')\<close> and the bytes of the file.\<close>

definition read_file :: "world \<Rightarrow> string \<Rightarrow> (error + byte list) \<times> world" where
  "read_file w path =
     (let w' = w\<lparr>trace := trace w @ [Open_read path]\<rparr> in
      case files w path of
        None \<Rightarrow> (Inl (FileNotFoundError path), w')
      | Some bytes \<Rightarrow> (Inr bytes, w'))"

definition read_text :: "encoding \<Rightarrow> world \<Rightarrow> string \<Rightarrow> (error + string) \<times> world" where
  "read_text enc w path =
     (case read_file w path of
        (Inl e, w') \<Rightarrow> (Inl e, w')
      | (Inr bytes, w') \<Rightarrow>
          (case decode_text enc bytes of
             Inl e \<Rightarrow> (Inl e, w')
           | Inr text \<Rightarrow> (Inr (universal_newlines text), w')))"

definition read_gzip_text ::
  "env \<Rightarrow> encoding \<Rightarrow> world \<Rightarrow> string \<Rightarrow> (error + string) \<times> world" where
  "read_gzip_text ev enc w path =
     (case read_file w path of
        (Inl e, w') \<Rightarrow> (Inl e, w')
      | (Inr bytes, w') \<Rightarrow>
          (case gz_decompress ev bytes of
             None \<Rightarrow> (Inl BadGzipFile, w')
           | Some raw \<Rightarrow>
               (case decode_text enc raw of
                  Inl e \<Rightarrow> (Inl e, w')
                | Inr text \<Rightarrow> (Inr (universal_newlines text), w'))))"

text \<open>
  \<open>pathlib\<close>: a path is its normalised text. \<open>name\<close> is the last component; \<open>suffix\<close> is
  the name from its last dot on, unless that dot is the first or the last character of
  the name.
\<close>

definition path_name :: "string \<Rightarrow> string" where
  "path_name p = rev (takeWhile (\<lambda>c. c \<noteq> CHR ''/'') (rev p))"

definition path_suffix :: "string \<Rightarrow> string" where
  "path_suffix p =
     (let name = path_name p;
          ext = rev (takeWhile (\<lambda>c. c \<noteq> CHR ''.'') (rev name));
          i = length name - length ext - 1
      in if CHR ''.'' \<in> set name \<and> 0 < i \<and> i < length name - 1 then drop i name else [])"

section \<open>The functions of the converter\<close>

text \<open>
  Modelled from the spec: \<open>is_none_or_empty\<close> is imported from \<open>src.utils.helpers\<close>, which
  is not part of the sources at hand; an input is missing when it is absent or empty.
\<close>

definition is_none_or_empty :: "'a list option \<Rightarrow> bool" where
  "is_none_or_empty item = (item = None \<or> item = Some [])"

definition dump_jsonl :: "env \<Rightarrow> world \<Rightarrow> string \<Rightarrow> string \<Rightarrow> int \<Rightarrow> (error + unit) \<times> world" where
  "dump_jsonl ev w jsonl_data output_path verbose =
     (case write_file ev w (absolute_path ev output_path) (encode_text UTF8 jsonl_data) of
        (Inl e, w1) \<Rightarrow> (Inl e, w1)
      | (Inr u, w1) \<Rightarrow>
          if verbose > 0 then
            (let jsonl_entries = length (split NL jsonl_data)
             in (Inr (), print (Wrote_jsonl jsonl_entries output_path) w1))
          else (Inr (), w1))"

definition compress_jsonl_data ::
  "env \<Rightarrow> world \<Rightarrow> string \<Rightarrow> string \<Rightarrow> int \<Rightarrow> (error + unit) \<times> world" where
  "compress_jsonl_data ev w jsonl_data output_path verbose =
     (case write_file ev w (absolute_path ev output_path)
             (gz_compress ev (encode_text (locale_encoding ev) jsonl_data)) of
        (Inl e, w1) \<Rightarrow> (Inl e, w1)
      | (Inr u, w1) \<Rightarrow>
          if verbose > 0 then
            (let jsonl_entries = length (split NL jsonl_data)
             in (Inr (), print (Wrote_gzip jsonl_entries output_path) w1))
          else (Inr (), w1))"

text \<open>The loop of \<open>load_jsonl\<close> over the lines; the first line that fails to parse ends it.\<close>

fun load_lines :: "char list \<Rightarrow> json list \<Rightarrow> string list \<Rightarrow> error + json list" where
  "load_lines strp data [] = Inr data"
| "load_lines strp data (line # rest) =
     (case json_loads (strip strp line) of
        Inl e \<Rightarrow> Inl e
      | Inr v \<Rightarrow> load_lines strp (data @ [v]) rest)"

text \<open>
  \<open>load_jsonl\<close>. With a suffix that is neither \<open>.gz\<close> nor \<open>.jsonl\<close> the variable
  \<open>jsonl_file\<close> stays \<open>None\<close>, and iterating over \<open>None\<close> raises \<open>TypeError\<close>.
\<close>

definition load_jsonl :: "env \<Rightarrow> world \<Rightarrow> string \<Rightarrow> int \<Rightarrow> (error + json list) \<times> world" where
  "load_jsonl ev w input_path verbose =
     (let jsonl_file =
            (if path_suffix input_path = ''.gz''
               then Some (read_gzip_text ev UTF8 w (absolute_path ev input_path))
             else if path_suffix input_path = ''.jsonl''
               then Some (read_text UTF8 w (absolute_path ev input_path))
             else None)
      in case jsonl_file of
           None \<Rightarrow> (Inl TypeError, w)
         | Some (Inl e, w1) \<Rightarrow> (Inl e, w1)
         | Some (Inr text, w1) \<Rightarrow>
             (case load_lines (strip_chars ev) [] (iter_lines [] text) of
                Inl e \<Rightarrow> (Inl e, w1)
              | Inr data \<Rightarrow>
                  if verbose > 0
                    then (Inr data, print (Loaded_records (length data) input_path) w1)
                  else (Inr data, w1)))"

text \<open>
  \<open>get_beancount_files\<close>. The result is a Python set; it is modelled by a list without
  duplicates, in one of the orders in which the set can be iterated. \<open>any(xs)\<close> over
  strings holds when one of them is not empty.
\<close>

definition get_beancount_files ::
  "env \<Rightarrow> world \<Rightarrow> string list option \<Rightarrow> string option \<Rightarrow> int \<Rightarrow> string list \<times> world" where
  "get_beancount_files ev w beancount_files beancount_file_filter verbose =
     (let absolute_beancount_files =
            (case beancount_files of
               None \<Rightarrow> []
             | Some fs \<Rightarrow> map (absolute_path ev) fs);
          (filtered_beancount_files, w1) =
            (case beancount_file_filter of
               None \<Rightarrow> ([], w)
             | Some flt \<Rightarrow>
                 if flt = [] then ([], w)
                 else (glob_paths ev (absolute_path ev flt),
                       w\<lparr>trace := trace w @ [Glob (absolute_path ev flt)]\<rparr>));
          all_beancount_files = remdups (absolute_beancount_files @ filtered_beancount_files);
          files_with_non_beancount_extensions =
            filter (\<lambda>f. \<not> endswith f ''.bean'' \<and> \<not> endswith f ''.beancount'')
              all_beancount_files;
          w2 = (if list_ex (\<lambda>f. f \<noteq> []) files_with_non_beancount_extensions
                  then print (Non_beancount_warning files_with_non_beancount_extensions) w1
                else w1);
          w3 = (if verbose > 0 then print (Processing_files all_beancount_files) w2 else w2)
      in (all_beancount_files, w3))"

text \<open>
  \<open>extract_beancount_entries\<close>: the files are opened with the encoding of the locale and
  read whole, one after the other; a file that cannot be read ends the run.
\<close>

fun extract_loop ::
  "env \<Rightarrow> world \<Rightarrow> string list \<Rightarrow> string list \<Rightarrow> (error + string list) \<times> world" where
  "extract_loop ev w entries [] = (Inr entries, w)"
| "extract_loop ev w entries (beancount_file # rest) =
     (case read_text (locale_encoding ev) w beancount_file of
        (Inl e, w1) \<Rightarrow> (Inl e, w1)
      | (Inr ledger_content, w1) \<Rightarrow>
          extract_loop ev w1
            (entries @ entries_of_content (class_chars ev) (strip_chars ev) ledger_content)
            rest)"

definition extract_beancount_entries ::
  "env \<Rightarrow> world \<Rightarrow> string list \<Rightarrow> (error + string list) \<times> world" where
  "extract_beancount_entries ev w beancount_files = extract_loop ev w [] beancount_files"

definition entry_dict :: "string \<Rightarrow> json" where
  "entry_dict entry = JObject [(''Title'', JString entry)]"

definition convert_beancount_entries_to_jsonl ::
  "world \<Rightarrow> string list \<Rightarrow> int \<Rightarrow> string \<times> world" where
  "convert_beancount_entries_to_jsonl w entries verbose =
     (let jsonl = foldl (\<lambda>jsonl entry. jsonl @ json_dumps (entry_dict entry) @ [NL]) [] entries
      in (jsonl, if verbose > 0 then print (Converted_entries (length entries)) w else w))"

definition beancount_to_jsonl ::
  "env \<Rightarrow> world \<Rightarrow> string list option \<Rightarrow> string option \<Rightarrow> string \<Rightarrow> int \<Rightarrow>
     (error + string list) \<times> world" where
  "beancount_to_jsonl ev w beancount_files beancount_file_filter output_file verbose =
     (if is_none_or_empty beancount_files \<and> is_none_or_empty beancount_file_filter
        then (Inl (SystemExit 1), print Input_required w)
      else
        (let (located, w1) =
               get_beancount_files ev w beancount_files beancount_file_filter verbose
         in case extract_beancount_entries ev w1 located of
              (Inl e, w2) \<Rightarrow> (Inl e, w2)
            | (Inr entries, w2) \<Rightarrow>
                (let (jsonl_data, w3) = convert_beancount_entries_to_jsonl w2 entries verbose;
                     written =
                       (if path_suffix output_file = ''.gz''
                          then compress_jsonl_data ev w3 jsonl_data output_file verbose
                        else if path_suffix output_file = ''.jsonl''
                          then dump_jsonl ev w3 jsonl_data output_file verbose
                        else (Inr (), w3))
                 in case written of
                      (Inl e, w4) \<Rightarrow> (Inl e, w4)
                    | (Inr u, w4) \<Rightarrow> (Inr entries, w4))))"

section \<open>A concrete environment for examples\<close>

text \<open>
  A POSIX machine with a UTF-8 locale. Relative paths resolve against \<open>/home/user\<close>,
  the gzip codec is a two-byte header in front of the stored bytes, and the constant
  \<open>empty_escape_sequences\<close> holds newline, carriage return, tab and space.
\<close>

definition example_absolute_path :: "string \<Rightarrow> string" where
  "example_absolute_path p =
     (case p of
        [] \<Rightarrow> ''/home/user''
      | c # cs \<Rightarrow> if c = CHR ''/'' then p else ''/home/user/'' @ p)"

definition example_gz_decompress :: "byte list \<Rightarrow> byte list option" where
  "example_gz_decompress bs =
     (case bs of
        b1 # b2 # rest \<Rightarrow> if b1 = 31 \<and> b2 = 139 then Some rest else None
      | _ \<Rightarrow> None)"

definition example_env :: env where
  "example_env =
     \<lparr>locale_encoding = UTF8,
      absolute_path = example_absolute_path,
      glob_paths = (\<lambda>pattern. []),
      writable = (\<lambda>path. True),
      gz_compress = (\<lambda>bs. 31 # 139 # bs),
      gz_decompress = example_gz_decompress,
      class_chars = [NL, CR, TAB, CHR '' ''],
      strip_chars = [NL, CR, TAB, CHR '' '']\<rparr>"

definition example_world :: world where
  "example_world = \<lparr>files = (\<lambda>path. None), trace = []\<rparr>"

section \<open>The reader on an unknown suffix\<close>

text \<open>
  C10. For an input path whose suffix is neither \<open>.gz\<close> nor \<open>.jsonl\<close>, \<open>load_jsonl\<close> raises
  an error instead of returning a list: the result is \<open>TypeError\<close>, and the world is the
  one the call started from, so no file was opened.
\<close>

theorem load_jsonl_unknown_suffix:
  assumes "path_suffix input_path \<noteq> ''.gz''"
      and "path_suffix input_path \<noteq> ''.jsonl''"
    shows "load_jsonl ev w input_path verbose = (Inl TypeError, w)"
  using assms by (simp add: load_jsonl_def)

lemma path_suffix_notes_txt: "path_suffix ''notes.txt'' = ''.txt''"
  by (simp add: path_suffix_def path_name_def)

theorem load_jsonl_unknown_suffix_witness:
  "path_suffix ''notes.txt'' \<noteq> ''.gz'' \<and> path_suffix ''notes.txt'' \<noteq> ''.jsonl'' \<and>
   load_jsonl example_env example_world ''notes.txt'' 0 = (Inl TypeError, example_world)"
proof -
  have a: "path_suffix ''notes.txt'' \<noteq> ''.gz''" and b: "path_suffix ''notes.txt'' \<noteq> ''.jsonl''"
    by (simp_all add: path_suffix_notes_txt)
  from a b load_jsonl_unknown_suffix[OF a b, of example_env example_world 0]
  show ?thesis by simp
qed

section \<open>The validation of the inputs\<close>

text \<open>
  C5. When the list of files is absent or empty and the filter is absent or empty, the
  pipeline prints its message and exits with status 1. The world after the run has the
  files it had before, and its trace has grown by the printed message alone: nothing
  was globbed, opened for reading or opened for writing.
\<close>

theorem missing_inputs_exit:
  assumes "is_none_or_empty beancount_files"
      and "is_none_or_empty beancount_file_filter"
    shows "beancount_to_jsonl ev w beancount_files beancount_file_filter output_file verbose =
             (Inl (SystemExit 1), w\<lparr>trace := trace w @ [Print Input_required]\<rparr>)"
  using assms by (simp add: beancount_to_jsonl_def print_def)

theorem missing_inputs_exit_witness:
  "is_none_or_empty (Some ([] :: string list)) \<and> is_none_or_empty (None :: string option) \<and>
   beancount_to_jsonl example_env example_world (Some []) None ''out.jsonl'' 0 =
     (Inl (SystemExit 1), example_world\<lparr>trace := trace example_world @ [Print Input_required]\<rparr>)"
proof -
  have a: "is_none_or_empty (Some ([] :: string list))"
    and b: "is_none_or_empty (None :: string option)"
    by (simp_all add: is_none_or_empty_def)
  from a b missing_inputs_exit[OF a b, of example_env example_world "''out.jsonl''" 0]
  show ?thesis by simp
qed

section \<open>What a run leaves untouched\<close>

text \<open>The paths that were opened for writing, read off the trace.\<close>

definition opened_for_writing :: "world \<Rightarrow> string list" where
  "opened_for_writing w =
     concat (map (\<lambda>e. case e of Open_write p \<Rightarrow> [p] | _ \<Rightarrow> []) (trace w))"

lemma read_text_frame:
  "read_text enc w path = (r, w') \<Longrightarrow>
     files w' = files w \<and> opened_for_writing w' = opened_for_writing w"
  by (auto simp: read_text_def read_file_def opened_for_writing_def Let_def
           split: option.splits sum.splits)

lemma extract_loop_frame:
  "extract_loop ev w entries fs = (r, w') \<Longrightarrow>
     files w' = files w \<and> opened_for_writing w' = opened_for_writing w"
proof (induction fs arbitrary: w entries)
  case Nil
  then show ?case by simp
next
  case (Cons f fs)
  obtain r1 w1 where rt: "read_text (locale_encoding ev) w f = (r1, w1)"
    by (cases "read_text (locale_encoding ev) w f")
  note fr = read_text_frame[OF rt]
  show ?case
  proof (cases r1)
    case (Inl e)
    with Cons.prems rt fr show ?thesis by simp
  next
    case (Inr content)
    with Cons.prems rt have
      "extract_loop ev w1 (entries @ entries_of_content (class_chars ev) (strip_chars ev) content) fs = (r, w')"
      by simp
    from Cons.IH[OF this] fr show ?thesis by simp
  qed
qed

lemma print_frame:
  "files (print m w) = files w \<and> opened_for_writing (print m w) = opened_for_writing w"
  by (simp add: print_def opened_for_writing_def)

lemma glob_frame:
  "files (w\<lparr>trace := trace w @ [Glob p]\<rparr>) = files w \<and>
   opened_for_writing (w\<lparr>trace := trace w @ [Glob p]\<rparr>) = opened_for_writing w"
  by (simp add: opened_for_writing_def)

lemma get_beancount_files_frame:
  "get_beancount_files ev w fs flt verbose = (located, w') \<Longrightarrow>
     files w' = files w \<and> opened_for_writing w' = opened_for_writing w"
  by (auto simp: get_beancount_files_def Let_def print_frame glob_frame
           split: option.splits if_splits prod.splits)

lemma convert_frame:
  "convert_beancount_entries_to_jsonl w entries verbose = (jsonl, w') \<Longrightarrow>
     files w' = files w \<and> opened_for_writing w' = opened_for_writing w"
  by (auto simp: convert_beancount_entries_to_jsonl_def Let_def print_frame)

text \<open>
  C4. When the suffix of the output path is neither \<open>.gz\<close> nor \<open>.jsonl\<close>, the pipeline
  writes nothing and the missing writer raises nothing: the files after the run are the
  files before it, no path was opened for writing beyond those already on the trace,
  and, the inputs being given, the outcome of the run is the outcome of the
  extraction, entries or read error.
\<close>

theorem unknown_output_suffix_no_write:
  assumes "path_suffix output_file \<noteq> ''.gz''"
      and "path_suffix output_file \<noteq> ''.jsonl''"
    shows "files (snd (beancount_to_jsonl ev w fs flt output_file verbose)) = files w \<and>
           opened_for_writing (snd (beancount_to_jsonl ev w fs flt output_file verbose)) =
             opened_for_writing w \<and>
           (\<not> (is_none_or_empty fs \<and> is_none_or_empty flt) \<longrightarrow>
              fst (beancount_to_jsonl ev w fs flt output_file verbose) =
                fst (extract_beancount_entries ev
                       (snd (get_beancount_files ev w fs flt verbose))
                       (fst (get_beancount_files ev w fs flt verbose))))"
proof (cases "is_none_or_empty fs \<and> is_none_or_empty flt")
  case True
  then show ?thesis by (simp add: beancount_to_jsonl_def print_frame)
next
  case False
  obtain located w1 where g: "get_beancount_files ev w fs flt verbose = (located, w1)"
    by (cases "get_beancount_files ev w fs flt verbose")
  obtain r w2 where x: "extract_beancount_entries ev w1 located = (r, w2)"
    by (cases "extract_beancount_entries ev w1 located")
  note f1 = get_beancount_files_frame[OF g]
  note f2 = extract_loop_frame[OF x[unfolded extract_beancount_entries_def]]
  show ?thesis
  proof (cases r)
    case (Inl e)
    with False g x f1 f2 show ?thesis
      by (cases "is_none_or_empty fs"; cases "is_none_or_empty flt";
          simp add: beancount_to_jsonl_def)
  next
    case (Inr entries)
    obtain jsonl w3 where c: "convert_beancount_entries_to_jsonl w2 entries verbose = (jsonl, w3)"
      by (cases "convert_beancount_entries_to_jsonl w2 entries verbose")
    note f3 = convert_frame[OF c]
    from Inr False g x c f1 f2 f3 assms show ?thesis
      by (cases "is_none_or_empty fs"; cases "is_none_or_empty flt";
          simp add: beancount_to_jsonl_def)
  qed
qed

text \<open>A ledger of two transactions separated by a blank line, stored as \<open>main.bean\<close>.\<close>

definition example_ledger :: string where
  "example_ledger =
     ''2020-01-01 * Shop'' @ [NL] @ ''  Assets:Cash  -5 USD'' @ [NL, NL] @
     ''2020-01-02 ! Cafe'' @ [NL] @ ''  Assets:Cash  -3 USD'' @ [NL]"

definition ledger_world :: world where
  "ledger_world =
     \<lparr>files = (\<lambda>path. if path = ''/home/user/main.bean''
                        then Some (encode_text UTF8 example_ledger) else None),
      trace = []\<rparr>"

lemma path_suffix_out_txt: "path_suffix ''out.txt'' = ''.txt''"
  by (simp add: path_suffix_def path_name_def)

lemma ledger_run_entries:
  "fst (extract_beancount_entries example_env
         (snd (get_beancount_files example_env ledger_world (Some [''main.bean'']) None 0))
         (fst (get_beancount_files example_env ledger_world (Some [''main.bean'']) None 0))) =
   Inr [''2020-01-01 * Shop'' @ [NL] @ ''  Assets:Cash  -5 USD'',
        ''2020-01-02 ! Cafe'' @ [NL] @ ''  Assets:Cash  -3 USD'']"
  by code_simp

theorem unknown_output_suffix_no_write_witness:
  "path_suffix ''out.txt'' \<noteq> ''.gz'' \<and> path_suffix ''out.txt'' \<noteq> ''.jsonl'' \<and>
   files (snd (beancount_to_jsonl example_env ledger_world (Some [''main.bean'']) None ''out.txt'' 0)) =
     files ledger_world \<and>
   opened_for_writing
     (snd (beancount_to_jsonl example_env ledger_world (Some [''main.bean'']) None ''out.txt'' 0)) = [] \<and>
   fst (beancount_to_jsonl example_env ledger_world (Some [''main.bean'']) None ''out.txt'' 0) =
     Inr [''2020-01-01 * Shop'' @ [NL] @ ''  Assets:Cash  -5 USD'',
          ''2020-01-02 ! Cafe'' @ [NL] @ ''  Assets:Cash  -3 USD'']"
proof -
  have a: "path_suffix ''out.txt'' \<noteq> ''.gz''" and b: "path_suffix ''out.txt'' \<noteq> ''.jsonl''"
    by (simp_all add: path_suffix_out_txt)
  have v: "\<not> (is_none_or_empty (Some [''main.bean'']) \<and> is_none_or_empty (None :: string option))"
    by (simp add: is_none_or_empty_def)
  have o: "opened_for_writing ledger_world = []"
    by (simp add: opened_for_writing_def ledger_world_def)
  from unknown_output_suffix_no_write[OF a b, of example_env ledger_world "Some [''main.bean'']" None 0]
    a b v o ledger_run_entries
  show ?thesis by simp
qed

section \<open>The value the pipeline returns\<close>

lemma dump_jsonl_result:
  "fst (dump_jsonl ev w jsonl_data output_path verbose) =
     (if writable ev (absolute_path ev output_path) then Inr ()
      else Inl (PermissionError (absolute_path ev output_path)))"
  by (simp add: dump_jsonl_def write_file_def Let_def)

lemma compress_jsonl_data_result:
  "fst (compress_jsonl_data ev w jsonl_data output_path verbose) =
     (if writable ev (absolute_path ev output_path) then Inr ()
      else Inl (PermissionError (absolute_path ev output_path)))"
  by (simp add: compress_jsonl_data_def write_file_def Let_def)

text \<open>
  C9. When at least one input is given, the value that \<open>beancount_to_jsonl\<close> returns is
  the list of entries the extraction produced, whatever the output path is: with a
  suffix no writer takes, and with a writer that ran. The run fails only where the
  extraction failed or where a writer could not open its destination.
\<close>

theorem returned_entries_independent_of_output:
  assumes "\<not> (is_none_or_empty fs \<and> is_none_or_empty flt)"
  shows "fst (beancount_to_jsonl ev w fs flt output_file verbose) =
           (case fst (extract_beancount_entries ev
                        (snd (get_beancount_files ev w fs flt verbose))
                        (fst (get_beancount_files ev w fs flt verbose))) of
              Inl e \<Rightarrow> Inl e
            | Inr entries \<Rightarrow>
                if (path_suffix output_file = ''.gz'' \<or> path_suffix output_file = ''.jsonl'') \<and>
                   \<not> writable ev (absolute_path ev output_file)
                  then Inl (PermissionError (absolute_path ev output_file))
                else Inr entries)"
proof -
  obtain located w1 where g: "get_beancount_files ev w fs flt verbose = (located, w1)"
    by (cases "get_beancount_files ev w fs flt verbose")
  obtain r w2 where x: "extract_beancount_entries ev w1 located = (r, w2)"
    by (cases "extract_beancount_entries ev w1 located")
  show ?thesis
  proof (cases r)
    case (Inl e)
    with assms g x show ?thesis
      by (cases "is_none_or_empty fs"; cases "is_none_or_empty flt";
          simp add: beancount_to_jsonl_def)
  next
    case (Inr entries)
    obtain jsonl w3 where c: "convert_beancount_entries_to_jsonl w2 entries verbose = (jsonl, w3)"
      by (cases "convert_beancount_entries_to_jsonl w2 entries verbose")
    obtain r1 w4 where d: "dump_jsonl ev w3 jsonl output_file verbose = (r1, w4)"
      by (cases "dump_jsonl ev w3 jsonl output_file verbose")
    obtain r2 w5 where z: "compress_jsonl_data ev w3 jsonl output_file verbose = (r2, w5)"
      by (cases "compress_jsonl_data ev w3 jsonl output_file verbose")
    from d have r1: "r1 = (if writable ev (absolute_path ev output_file) then Inr ()
      else Inl (PermissionError (absolute_path ev output_file)))"
      using dump_jsonl_result[of ev w3 jsonl output_file verbose] by simp
    from z have r2: "r2 = (if writable ev (absolute_path ev output_file) then Inr ()
      else Inl (PermissionError (absolute_path ev output_file)))"
      using compress_jsonl_data_result[of ev w3 jsonl output_file verbose] by simp
    from Inr assms g x c d z r1 r2 show ?thesis
      by (cases "is_none_or_empty fs"; cases "is_none_or_empty flt";
          simp add: beancount_to_jsonl_def)
  qed
qed


theorem returned_entries_independent_of_output_witness:
  "\<not> (is_none_or_empty (Some [''main.bean'']) \<and> is_none_or_empty (None :: string option)) \<and>
   fst (beancount_to_jsonl example_env ledger_world (Some [''main.bean'']) None ''out.jsonl'' 0) =
     Inr [''2020-01-01 * Shop'' @ [NL] @ ''  Assets:Cash  -5 USD'',
          ''2020-01-02 ! Cafe'' @ [NL] @ ''  Assets:Cash  -3 USD'']"
proof -
  have v: "\<not> (is_none_or_empty (Some [''main.bean'']) \<and> is_none_or_empty (None :: string option))"
    by (simp add: is_none_or_empty_def)
  have wr: "writable example_env (absolute_path example_env ''out.jsonl'')"
    by (simp add: example_env_def)
  from returned_entries_independent_of_output[OF v, of example_env ledger_world "''out.jsonl''" 0]
    v wr ledger_run_entries
  show ?thesis by simp
qed

section \<open>The file locator\<close>

lemma trace_print: "trace (print m w) = trace w @ [Print m]"
  by (simp add: print_def)

text \<open>
  C6. A resolved input path (the absolute form of a listed file, or a match of the
  filter) that ends in neither \<open>.bean\<close> nor \<open>.beancount\<close> is in the list the locator
  returns, and the locator prints a warning whose list of paths holds it. The locator
  has no error result, so the warning is not fatal. A resolved path is never the empty
  string, which is what \<open>any\<close> needs to see the set as non-empty.
\<close>

theorem non_beancount_extension_warned_and_kept:
  assumes resolved:
    "(\<exists>fs. beancount_files = Some fs \<and> p \<in> set (map (absolute_path ev) fs)) \<or>
     (\<exists>flt. beancount_file_filter = Some flt \<and> flt \<noteq> [] \<and>
            p \<in> set (glob_paths ev (absolute_path ev flt)))"
      and ext: "\<not> endswith p ''.bean''" "\<not> endswith p ''.beancount''"
      and nonempty: "p \<noteq> []"
    shows "p \<in> set (fst (get_beancount_files ev w beancount_files beancount_file_filter verbose)) \<and>
           (\<exists>ps. Print (Non_beancount_warning ps) \<in>
                   set (trace (snd (get_beancount_files ev w beancount_files beancount_file_filter verbose))) \<and>
                 p \<in> set ps)"
proof -
  let ?abs = "case beancount_files of None \<Rightarrow> [] | Some fs \<Rightarrow> map (absolute_path ev) fs"
  let ?flt = "case beancount_file_filter of None \<Rightarrow> [] | Some flt \<Rightarrow>
                if flt = [] then [] else glob_paths ev (absolute_path ev flt)"
  let ?all = "remdups (?abs @ ?flt)"
  let ?non = "filter (\<lambda>f. \<not> endswith f ''.bean'' \<and> \<not> endswith f ''.beancount'') ?all"
  from resolved have mem: "p \<in> set ?all" by (auto split: option.splits)
  with ext have pn: "p \<in> set ?non" by simp
  from pn nonempty have ex: "list_ex (\<lambda>f. f \<noteq> []) ?non"
    unfolding list_ex_iff by (rule_tac x = p in bexI)
  have fst_eq: "fst (get_beancount_files ev w beancount_files beancount_file_filter verbose) = ?all"
    by (auto simp: get_beancount_files_def Let_def split: option.splits prod.splits)
  have warn: "Print (Non_beancount_warning ?non) \<in>
          set (trace (snd (get_beancount_files ev w beancount_files beancount_file_filter verbose)))"
    using ex
    by (auto simp: get_beancount_files_def Let_def trace_print split: option.splits prod.splits)
  from mem fst_eq
  have kept: "p \<in> set (fst (get_beancount_files ev w beancount_files beancount_file_filter verbose))"
    by simp
  from warn pn have "\<exists>ps. Print (Non_beancount_warning ps) \<in>
      set (trace (snd (get_beancount_files ev w beancount_files beancount_file_filter verbose))) \<and>
      p \<in> set ps"
    by (intro exI[of _ ?non] conjI)
  with kept show ?thesis by (rule conjI)
qed

lemma txt_not_bean:
  "\<not> endswith ''/home/user/notes.txt'' ''.bean'' \<and>
   \<not> endswith ''/home/user/notes.txt'' ''.beancount''"
  by (simp add: endswith_def)

theorem non_beancount_extension_warned_and_kept_witness:
  "''/home/user/notes.txt'' \<in>
     set (fst (get_beancount_files example_env example_world (Some [''notes.txt'']) None 0)) \<and>
   (\<exists>ps. Print (Non_beancount_warning ps) \<in>
           set (trace (snd (get_beancount_files example_env example_world
                              (Some [''notes.txt'']) None 0))) \<and>
         ''/home/user/notes.txt'' \<in> set ps)"
proof -
  have r: "(\<exists>fs. Some [''notes.txt''] = Some fs \<and>
              ''/home/user/notes.txt'' \<in> set (map (absolute_path example_env) fs)) \<or>
           (\<exists>flt. (None :: string option) = Some flt \<and> flt \<noteq> [] \<and>
              ''/home/user/notes.txt'' \<in> set (glob_paths example_env (absolute_path example_env flt)))"
    by (simp add: example_env_def example_absolute_path_def)
  have e1: "\<not> endswith ''/home/user/notes.txt'' ''.bean''"
    and e2: "\<not> endswith ''/home/user/notes.txt'' ''.beancount''"
    using txt_not_bean by simp_all
  have n: "''/home/user/notes.txt'' \<noteq> []" by simp
  from non_beancount_extension_warned_and_kept[OF r e1 e2 n, of example_world 0]
  show ?thesis .
qed

section \<open>The text the emitter builds\<close>

lemma hex_digit_mem: "hex_digit n \<in> set ''0123456789abcdef''"
proof -
  have "n mod 16 < length ''0123456789abcdef''" by simp
  then show ?thesis unfolding hex_digit_def by (rule nth_mem)
qed

lemma hex_digit_plain: "hex_digit n \<noteq> NL" "hex_digit n \<noteq> CR" "hex_digit n \<noteq> DQ" "hex_digit n \<noteq> BSL"
  using hex_digit_mem[of n] by auto

lemma escape_char_no_newline: "NL \<notin> set (escape_char c)" "CR \<notin> set (escape_char c)"
  by (auto simp: escape_char_def hex_digit_plain hex_digit_plain[symmetric])

lemma encode_basestring_no_newline:
  "NL \<notin> set (encode_basestring s)" "CR \<notin> set (encode_basestring s)"
  by (auto simp: encode_basestring_def escape_char_no_newline)

lemma json_dumps_entry_dict:
  "json_dumps (entry_dict e) =
     ''{'' @ encode_basestring ''Title'' @ '': '' @ encode_basestring e @ ''}''"
  by (simp add: entry_dict_def)

lemma json_dumps_entry_dict_no_newline:
  "NL \<notin> set (json_dumps (entry_dict e))" "CR \<notin> set (json_dumps (entry_dict e))"
  using encode_basestring_no_newline[of "''Title''"] encode_basestring_no_newline[of e]
  by (auto simp: json_dumps_entry_dict simp del: json_dumps.simps)

text \<open>The text that the loop of \<open>convert_beancount_entries_to_jsonl\<close> builds, in closed form.\<close>

definition jsonl_of :: "string list \<Rightarrow> string" where
  "jsonl_of entries = concat (map (\<lambda>entry. json_dumps (entry_dict entry) @ [NL]) entries)"

lemma foldl_append_concat:
  "foldl (\<lambda>acc x. acc @ f x) a xs = a @ concat (map f xs)"
  by (induction xs arbitrary: a) simp_all

lemma convert_jsonl:
  "fst (convert_beancount_entries_to_jsonl w entries verbose) = jsonl_of entries"
  using foldl_append_concat[of "\<lambda>entry. json_dumps (entry_dict entry) @ [NL]" "[]" entries]
  by (simp add: convert_beancount_entries_to_jsonl_def jsonl_of_def Let_def)

lemma split_acc_line:
  "sep \<notin> set xs \<Longrightarrow>
     split_acc sep acc (xs @ sep # rest) = (rev acc @ xs) # split_acc sep [] rest"
  by (induction xs arbitrary: acc) auto

lemma split_lines:
  "\<forall>l \<in> set ls. NL \<notin> set l \<Longrightarrow>
     split NL (concat (map (\<lambda>l. l @ [NL]) ls)) = ls @ [[]]"
proof (induction ls)
  case Nil
  then show ?case by (simp add: split_def)
next
  case (Cons l ls)
  then have "NL \<notin> set l" and rest: "split NL (concat (map (\<lambda>l. l @ [NL]) ls)) = ls @ [[]]"
    by simp_all
  then show ?case
    using split_acc_line[of NL l "[]" "concat (map (\<lambda>l. l @ [NL]) ls)"]
    by (simp add: split_def)
qed

lemma jsonl_of_as_lines:
  "jsonl_of entries = concat (map (\<lambda>l. l @ [NL]) (map (\<lambda>e. json_dumps (entry_dict e)) entries))"
  by (simp add: jsonl_of_def comp_def)

lemma split_jsonl_of:
  "split NL (jsonl_of entries) = map (\<lambda>e. json_dumps (entry_dict e)) entries @ [[]]"
  unfolding jsonl_of_as_lines
  by (rule split_lines) (auto simp: json_dumps_entry_dict_no_newline simp del: json_dumps.simps)

lemma reported_count: "length (split NL (jsonl_of entries)) = length entries + 1"
  by (simp add: split_jsonl_of)

text \<open>
  C8. The count that the two writers report under \<open>verbose > 0\<close>, for the text built from
  \<open>N\<close> entries. The text has \<open>N\<close> lines, each ended by a newline, and the writers count
  the pieces of \<open>split('\n')\<close>, of which the last is the empty piece after the final
  newline: the reported count is \<open>N + 1\<close>, one more than the number of lines written.
\<close>

theorem reported_line_count:
  assumes "0 < verbose" and "writable ev (absolute_path ev output_path)"
  shows "trace (snd (dump_jsonl ev w (fst (convert_beancount_entries_to_jsonl w0 entries v))
                       output_path verbose)) =
           trace w @ [Open_write (absolute_path ev output_path),
                      Print (Wrote_jsonl (length entries + 1) output_path)] \<and>
         trace (snd (compress_jsonl_data ev w (fst (convert_beancount_entries_to_jsonl w0 entries v))
                       output_path verbose)) =
           trace w @ [Open_write (absolute_path ev output_path),
                      Print (Wrote_gzip (length entries + 1) output_path)]"
  using assms
  by (simp add: dump_jsonl_def compress_jsonl_data_def write_file_def Let_def print_def
                convert_jsonl reported_count)

theorem reported_line_count_witness:
  "(0::int) < 1 \<and> writable example_env (absolute_path example_env ''out.jsonl'') \<and>
   trace (snd (dump_jsonl example_env example_world
                 (fst (convert_beancount_entries_to_jsonl example_world [''2020-01-01 * Shop''] 0))
                 ''out.jsonl'' 1)) =
     [Open_write ''/home/user/out.jsonl'', Print (Wrote_jsonl 2 ''out.jsonl'')] \<and>
   trace (snd (compress_jsonl_data example_env example_world
                 (fst (convert_beancount_entries_to_jsonl example_world [''2020-01-01 * Shop''] 0))
                 ''out.jsonl'' 1)) =
     [Open_write ''/home/user/out.jsonl'', Print (Wrote_gzip 2 ''out.jsonl'')]"
proof -
  have a: "(0::int) < 1" by simp
  have b: "writable example_env (absolute_path example_env ''out.jsonl'')"
    by (simp add: example_env_def)
  from reported_line_count[OF a b, of example_world example_world "[''2020-01-01 * Shop'']" 0] a b
  show ?thesis by (simp add: example_env_def example_absolute_path_def example_world_def)
qed

section \<open>Writing and reading back\<close>

lemma written_plain:
  "writable ev (absolute_path ev p) \<Longrightarrow>
     files (snd (dump_jsonl ev w d p verbose)) (absolute_path ev p) = Some (encode_text UTF8 d)"
  by (simp add: dump_jsonl_def write_file_def Let_def print_def)















lemma escape_Title: "concat (map escape_char ''Title'') = ''Title''"
  by (simp add: escape_char_def)







section \<open>The two writers side by side\<close>

lemma written_gzip:
  "writable ev (absolute_path ev p) \<Longrightarrow>
     files (snd (compress_jsonl_data ev w d p verbose)) (absolute_path ev p) =
       Some (gz_compress ev (encode_text (locale_encoding ev) d))"
  by (simp add: compress_jsonl_data_def write_file_def Let_def print_def)

text \<open>
  Under a UTF-8 locale, and with a gzip codec that gives back what it compressed, the
  file of the gzip writer decompresses to the bytes of the file of the plain writer.
\<close>

lemma compressed_equals_plain_under_utf8:
  assumes "locale_encoding ev = UTF8"
      and "\<forall>bs. gz_decompress ev (gz_compress ev bs) = Some bs"
      and "writable ev (absolute_path ev p)" and "writable ev (absolute_path ev q)"
    shows "Option.bind (files (snd (compress_jsonl_data ev w d q verbose)) (absolute_path ev q))
             (gz_decompress ev) =
           files (snd (dump_jsonl ev w' d p verbose')) (absolute_path ev p)"
  using assms by (simp add: written_plain written_gzip)

text \<open>The example environment under a Latin-1 locale.\<close>

definition latin1_env :: env where
  "latin1_env = example_env\<lparr>locale_encoding := Latin1\<rparr>"

text \<open>
  C7. The plain writer opens its file with \<open>encoding='utf-8'\<close>; the gzip writer opens its
  file in text mode with no encoding and so writes in the encoding of the locale. Under
  a Latin-1 locale an entry that is the one character e-acute (code point 0xE9) is written as the two bytes
  195, 169 by the plain writer and as the one byte 233 inside the gzip file: the
  decompressed content is not the content of the plain file.
\<close>

theorem gzip_content_differs_under_latin1:
  "files (snd (dump_jsonl latin1_env example_world (jsonl_of [[CHR 0xE9]]) ''out.jsonl'' 0))
     ''/home/user/out.jsonl'' =
     Some [123, 34, 84, 105, 116, 108, 101, 34, 58, 32, 34, 195, 169, 34, 125, 10] \<and>
   Option.bind
     (files (snd (compress_jsonl_data latin1_env example_world (jsonl_of [[CHR 0xE9]])
                    ''out.jsonl.gz'' 0)) ''/home/user/out.jsonl.gz'')
     (gz_decompress latin1_env) =
     Some [123, 34, 84, 105, 116, 108, 101, 34, 58, 32, 34, 233, 34, 125, 10]"
  by code_simp

end
